theory Spec2Isabelle
  imports Main "HOL-Library.Word"
begin

section \<open>The verifier operator of aligned\_layer\<close>

text \<open>
  A shallow embedding of the Go package \<open>operator\<close>: the runtime loop \<open>Start\<close>, the task
  processor \<open>ProcessNewTaskCreatedLog\<close>, the PLONK verifier \<open>verifyPlonkProof\<close> and the
  signer \<open>SignTaskResponse\<close>.

  Everything the package calls but does not define (the data-availability clients, gnark,
  the SP1 binding, the ABI encoder, Keccak and BLS) is a field of the record \<open>env\<close>, a
  function of its arguments. What a function of the package does besides returning a value
  (logging, calls to the collaborators, the goroutine it spawns) is returned as a list of
  events in front of its result.
\<close>

subsection \<open>Data\<close>

type_synonym bytes = "8 word list"
type_synonym error = string

text \<open>
  The contract binding's structs; an integer field keeps its width. The field \<open>TaskIndex\<close>
  of the response is \<open>RespTaskIndex\<close> here, the one of the log keeps its name.
\<close>

record DAPayload =
  Solution :: "8 word"
  ProofAssociatedData :: bytes
  Index :: "64 word"

record ProofVerificationData =
  ProvingSystemId :: "16 word"
  DAPayload :: DAPayload
  PubInput :: bytes
  VerificationKey :: bytes

record BatchProofVerificationTask =
  TaskCreatedBlock :: "64 word"
  ProofVerificationsData :: "ProofVerificationData list"

record NewTaskCreated =
  TaskIndex :: "32 word"
  BatchProofVerificationTask :: BatchProofVerificationTask

record BatchProofVerificationTaskResponse =
  RespTaskIndex :: "32 word"
  ProofResults :: "bool list"

text \<open>
  Values of the libraries, opaque to the operator. \<open>ID\<close> is \<open>ecc.ID\<close>, the name of a curve;
  the package passes \<open>BLS12_381\<close> and \<open>BN254\<close> only.
\<close>

datatype ID = BN254 | BLS12_377 | BLS12_381 | BLS24_315 | BW6_761
datatype Proof = Proof bytes
datatype Witness = Witness bytes
datatype VerifyingKey = VerifyingKey bytes
datatype KeyPair = KeyPair bytes
datatype Signature = Signature bytes

record SignedTaskResponse =
  TaskResponse :: BatchProofVerificationTaskResponse
  BlsSignature :: Signature
  SignedOperatorId :: bytes

text \<open>
  What the operator does to the outside, in the order it does it. A logger call keeps its
  format string, up to a final newline (\<open>Error\<close> and \<open>Errorf\<close> are one event, \<open>Info\<close> and
  \<open>Infof\<close> another); a call to a collaborator keeps its arguments.
\<close>

datatype event =
    Info string
  | Errorf string
  | Subscribe
  | Unsubscribe
  | GetProofFromEigenDA bytes "64 word"
  | GetProofFromCelestia "64 word" bytes bytes
  | ProofReadFrom ID bytes
  | WitnessNew ID
  | WitnessReadFrom bytes
  | VerifyingKeyReadFrom ID bytes
  | PlonkVerify Proof VerifyingKey Witness
  | Sp1Verify bytes nat bytes nat
  | SendSignedTaskResponseToAggregator SignedTaskResponse

text \<open>
  The collaborators. The constants of package \<open>common\<close> and of package \<open>sp1\<close> are not
  among the sources, so they are fields too; the Go compiler refuses a switch with two
  equal constant cases, which \<open>distinct_tags\<close> records.
\<close>

record env =
  Calldata :: "8 word"
  EigenDA :: "8 word"
  Celestia :: "8 word"
  GnarkPlonkBls12_381 :: "16 word"
  GnarkPlonkBn254 :: "16 word"
  SP1 :: "16 word"
  MaxProofSize :: nat
  MaxElfBufferSize :: nat
  getProofFromEigenDA :: "bytes \<Rightarrow> 64 word \<Rightarrow> error + bytes"
  getProofFromCelestia :: "64 word \<Rightarrow> bytes \<Rightarrow> bytes \<Rightarrow> error + bytes"
  proof_ReadFrom :: "ID \<Rightarrow> bytes \<Rightarrow> error + Proof"
  witness_New :: "ID \<Rightarrow> error + Witness"
  witness_ReadFrom :: "Witness \<Rightarrow> bytes \<Rightarrow> error + Witness"
  verifyingKey_ReadFrom :: "ID \<Rightarrow> bytes \<Rightarrow> error + VerifyingKey"
  plonk_Verify :: "Proof \<Rightarrow> VerifyingKey \<Rightarrow> Witness \<Rightarrow> error option"
  sp1_verifier :: "bytes \<Rightarrow> bytes \<Rightarrow> bool"
  AbiEncodeTaskResponse :: "BatchProofVerificationTaskResponse \<Rightarrow> error + bytes"
  Keccak256 :: "bytes \<Rightarrow> bytes"
  SignMessage :: "KeyPair \<Rightarrow> bytes \<Rightarrow> Signature"

definition distinct_tags :: "env \<Rightarrow> bool" where
  "distinct_tags env \<longleftrightarrow>
     distinct [Calldata env, EigenDA env, Celestia env] \<and>
     distinct [GnarkPlonkBls12_381 env, GnarkPlonkBn254 env, SP1 env]"

text \<open>The fields of \<open>Operator\<close> that the four functions read.\<close>

record Operator =
  Config_CelestiaConfig_Namespace :: bytes
  Config_BlsConfig_KeyPair :: KeyPair
  OperatorId :: bytes
  Socket :: string

subsection \<open>Go's built-ins\<close>

text \<open>\<open>copy(dst, src)\<close> overwrites the first \<open>min(len(dst), len(src))\<close> bytes of \<open>dst\<close>.\<close>

definition copy :: "bytes \<Rightarrow> bytes \<Rightarrow> bytes" where
  "copy dst src = (let n = min (length dst) (length src) in take n src @ drop n dst)"

text \<open>\<open>make([]byte, n)\<close>.\<close>

definition make_bytes :: "nat \<Rightarrow> bytes" where
  "make_bytes n = replicate n 0"

text \<open>Events that come before those of the rest of the function.\<close>

fun emit :: "event list \<Rightarrow> event list \<times> 'a \<Rightarrow> event list \<times> 'a" where
  "emit es (tr, r) = (es @ tr, r)"

text \<open>
  How a piece of a function body ends: it panics, it makes the function return \<open>nil\<close>, or
  control goes on with a value.
\<close>

datatype 'a flow = Panic string | ReturnNil | Next 'a

text \<open>A call that panics or returns.\<close>

datatype 'a go = Panics string | Returns 'a

text \<open>
  The conversion \<open>([n]byte)(s)\<close> of a slice to an array panics when the slice is shorter
  than the array.
\<close>

definition to_array :: "nat \<Rightarrow> bytes \<Rightarrow> bytes option" where
  "to_array n s = (if length s < n then None else Some (take n s))"

subsection \<open>The PLONK verifier\<close>

text \<open>
  \<open>witness.New\<close> takes the scalar field of the curve; the model hands it the curve. Each
  call to gnark is an event, followed by what the function goes on to do.
\<close>

definition verifyPlonkProof :: "env \<Rightarrow> bytes \<Rightarrow> bytes \<Rightarrow> bytes \<Rightarrow> ID \<Rightarrow> event list \<times> bool" where
  "verifyPlonkProof env proofBytes pubInputBytes verificationKeyBytes curve =
     emit [ProofReadFrom curve proofBytes]
       (case proof_ReadFrom env curve proofBytes of
          Inl err \<Rightarrow> ([Errorf ''Could not deserialize proof: %v''], False)
        | Inr proof \<Rightarrow>
            emit [WitnessNew curve]
              (case witness_New env curve of
                 Inl err \<Rightarrow> ([Errorf ''Error instantiating witness: %v''], False)
               | Inr w \<Rightarrow>
                   emit [WitnessReadFrom pubInputBytes]
                     (case witness_ReadFrom env w pubInputBytes of
                        Inl err \<Rightarrow> ([Errorf ''Could not read PLONK public input: %v''], False)
                      | Inr pubInput \<Rightarrow>
                          emit [VerifyingKeyReadFrom curve verificationKeyBytes]
                            (case verifyingKey_ReadFrom env curve verificationKeyBytes of
                               Inl err \<Rightarrow>
                                 ([Errorf ''Could not read PLONK verifying key from bytes: %v''], False)
                             | Inr verificationKey \<Rightarrow>
                                 ([PlonkVerify proof verificationKey pubInput],
                                  plonk_Verify env proof verificationKey pubInput = None)))))"

definition verifyPlonkProofBLS12_381 :: "env \<Rightarrow> bytes \<Rightarrow> bytes \<Rightarrow> bytes \<Rightarrow> event list \<times> bool" where
  "verifyPlonkProofBLS12_381 env proofBytes pubInputBytes verificationKeyBytes =
     verifyPlonkProof env proofBytes pubInputBytes verificationKeyBytes BLS12_381"

definition verifyPlonkProofBN254 :: "env \<Rightarrow> bytes \<Rightarrow> bytes \<Rightarrow> bytes \<Rightarrow> event list \<times> bool" where
  "verifyPlonkProofBN254 env proofBytes pubInputBytes verificationKeyBytes =
     verifyPlonkProof env proofBytes pubInputBytes verificationKeyBytes BN254"

subsection \<open>The SP1 binding\<close>

text \<open>
  Modelled from the spec: \<open>sp1.VerifySp1Proof\<close> (package \<open>operator/sp1\<close>, the binding to
  the SP1 verifier) is not among the sources. The spec's contract for it: the proof and
  the ELF arrive in buffers of \<open>MaxProofSize\<close> and \<open>MaxElfBufferSize\<close> bytes with their
  true lengths alongside; inputs exceeding the buffer size are verification failures
  (\<open>false\<close>) and do not crash the operator; otherwise the verdict is the SP1 verifier's on
  the first \<open>proofLen\<close> and \<open>elfLen\<close> bytes.
\<close>

definition VerifySp1Proof :: "env \<Rightarrow> bytes \<Rightarrow> nat \<Rightarrow> bytes \<Rightarrow> nat \<Rightarrow> bool" where
  "VerifySp1Proof env proofBuffer proofLen elfBuffer elfLen =
     (if proofLen > MaxProofSize env \<or> elfLen > MaxElfBufferSize env then False
      else sp1_verifier env (take proofLen proofBuffer) (take elfLen elfBuffer))"

subsection \<open>The task processor\<close>

text \<open>The first switch of the loop body, on \<open>DAPayload.Solution\<close>; it has no default case.\<close>

definition da_switch :: "env \<Rightarrow> Operator \<Rightarrow> ProofVerificationData \<Rightarrow> event list \<times> bytes flow" where
  "da_switch env o' verificationData =
     (let payload = DAPayload verificationData in
      if Solution payload = Calldata env then
        ([], Next (ProofAssociatedData payload))
      else if Solution payload = EigenDA env then
        emit [GetProofFromEigenDA (ProofAssociatedData payload) (Index payload)]
          (case getProofFromEigenDA env (ProofAssociatedData payload) (Index payload) of
             Inl err \<Rightarrow> ([Errorf ''Could not get proof from EigenDA: %v''], ReturnNil)
           | Inr proof \<Rightarrow> ([], Next proof))
      else if Solution payload = Celestia env then
        emit [GetProofFromCelestia (Index payload) (Config_CelestiaConfig_Namespace o')
                (ProofAssociatedData payload)]
          (case getProofFromCelestia env (Index payload) (Config_CelestiaConfig_Namespace o')
                  (ProofAssociatedData payload) of
             Inl err \<Rightarrow> ([Errorf ''Could not get proof from Celestia: %v''], ReturnNil)
           | Inr proof \<Rightarrow> ([], Next proof))
      else ([], Next []))"

text \<open>The second switch, on \<open>ProvingSystemId\<close>; \<open>Next\<close> carries the verdict to store.\<close>

definition proving_system_switch ::
    "env \<Rightarrow> ProofVerificationData \<Rightarrow> bytes \<Rightarrow> event list \<times> bool flow" where
  "proving_system_switch env verificationData proof =
     (let proofLen = length proof;
          pubInput = PubInput verificationData;
          provingSystemId = ProvingSystemId verificationData in
      if provingSystemId = GnarkPlonkBls12_381 env then
        (case verifyPlonkProofBLS12_381 env proof pubInput (VerificationKey verificationData) of
           (tr, verificationResult) \<Rightarrow>
             (tr @ [Info ''PLONK BLS12_381 proof verification result: %t''], Next verificationResult))
      else if provingSystemId = GnarkPlonkBn254 env then
        (case verifyPlonkProofBN254 env proof pubInput (VerificationKey verificationData) of
           (tr, verificationResult) \<Rightarrow>
             (tr @ [Info ''PLONK BN254 proof verification result: %t''], Next verificationResult))
      else if provingSystemId = SP1 env then
        (let proofBytes = copy (make_bytes (MaxProofSize env)) proof;
             elf = PubInput verificationData;
             elfBytes = copy (make_bytes (MaxElfBufferSize env)) elf;
             elfLen = length elf in
         case to_array (MaxProofSize env) proofBytes of
           None \<Rightarrow> ([], Panic ''cannot convert slice to array'')
         | Some proofArray \<Rightarrow>
             (case to_array (MaxElfBufferSize env) elfBytes of
                None \<Rightarrow> ([], Panic ''cannot convert slice to array'')
              | Some elfArray \<Rightarrow>
                  ([Sp1Verify proofArray proofLen elfArray elfLen,
                    Info ''SP1 proof verification result: %t''],
                   Next (VerifySp1Proof env proofArray proofLen elfArray elfLen))))
      else ([Errorf ''Unrecognized proving system ID''], ReturnNil))"

text \<open>One iteration of \<open>for i, verificationData := range task.ProofVerificationsData\<close>.\<close>

definition loop_body :: "env \<Rightarrow> Operator \<Rightarrow> ProofVerificationData \<Rightarrow> event list \<times> bool flow" where
  "loop_body env o' verificationData =
     (case da_switch env o' verificationData of
        (tr, Panic msg) \<Rightarrow> (tr, Panic msg)
      | (tr, ReturnNil) \<Rightarrow> (tr, ReturnNil)
      | (tr, Next proof) \<Rightarrow> emit tr (proving_system_switch env verificationData proof))"

text \<open>
  The loop, from index \<open>i\<close> on, over the proofs not yet seen; \<open>proofVerificationResults\<close> is
  the slice the body writes its verdict into.
\<close>

fun range_loop ::
    "env \<Rightarrow> Operator \<Rightarrow> nat \<Rightarrow> ProofVerificationData list \<Rightarrow> bool list \<Rightarrow> event list \<times> bool list flow"
where
  "range_loop env o' i [] proofVerificationResults = ([], Next proofVerificationResults)"
| "range_loop env o' i (verificationData # rest) proofVerificationResults =
     (case loop_body env o' verificationData of
        (tr, Panic msg) \<Rightarrow> (tr, Panic msg)
      | (tr, ReturnNil) \<Rightarrow> (tr, ReturnNil)
      | (tr, Next verificationResult) \<Rightarrow>
          emit tr (range_loop env o' (Suc i) rest
                     (proofVerificationResults[i := verificationResult])))"

text \<open>The result is the pointer the function returns: \<open>None\<close> is \<open>nil\<close>.\<close>

definition ProcessNewTaskCreatedLog ::
    "env \<Rightarrow> Operator \<Rightarrow> NewTaskCreated \<Rightarrow> event list \<times> BatchProofVerificationTaskResponse option go"
where
  "ProcessNewTaskCreatedLog env o' newTaskCreatedLog =
     (let task = BatchProofVerificationTask newTaskCreatedLog;
          numProofs = length (ProofVerificationsData task) in
      emit [Info ''Received new task with proof to verify'']
        (case range_loop env o' 0 (ProofVerificationsData task) (replicate numProofs False) of
           (tr, Panic msg) \<Rightarrow> (tr, Panics msg)
         | (tr, ReturnNil) \<Rightarrow> (tr, Returns None)
         | (tr, Next proofVerificationResults) \<Rightarrow>
             (tr, Returns (Some \<lparr>RespTaskIndex = TaskIndex newTaskCreatedLog,
                                  ProofResults = proofVerificationResults\<rparr>))))"

subsection \<open>The signer\<close>

text \<open>
  The state of a \<open>hash.Hash\<close>: the bytes written so far. \<open>Sum(b)\<close> appends the digest of
  them to \<open>b\<close>.
\<close>

record hasher =
  written :: bytes

definition NewLegacyKeccak256 :: hasher where
  "NewLegacyKeccak256 = \<lparr>written = []\<rparr>"

definition hasher_Write :: "hasher \<Rightarrow> bytes \<Rightarrow> hasher" where
  "hasher_Write h p = h\<lparr>written := written h @ p\<rparr>"

definition hasher_Sum :: "env \<Rightarrow> hasher \<Rightarrow> bytes \<Rightarrow> bytes" where
  "hasher_Sum env h b = b @ Keccak256 env (written h)"

text \<open>
  The result is the pair \<open>(*bls.Signature, error)\<close>. The argument is a pointer, and
  \<open>*taskResponse\<close> panics on \<open>nil\<close>; so does the slice expression \<open>[:32]\<close> on a shorter sum
  (Keccak-256 gives 32 bytes). The key pair is the one of the configuration, which
  \<open>NewOperatorFromConfig\<close> has dereferenced already.
\<close>

definition SignTaskResponse ::
    "env \<Rightarrow> Operator \<Rightarrow> BatchProofVerificationTaskResponse option
       \<Rightarrow> (Signature option \<times> error option) go"
where
  "SignTaskResponse env o' taskResponse =
     (case taskResponse of
        None \<Rightarrow> Panics ''invalid memory address or nil pointer dereference''
      | Some response \<Rightarrow>
          (case AbiEncodeTaskResponse env response of
             Inl err \<Rightarrow> Returns (None, Some err)
           | Inr encodedResponseBytes \<Rightarrow>
               (let hasher = hasher_Write NewLegacyKeccak256 encodedResponseBytes;
                    s = hasher_Sum env hasher [] in
                if length s < 32 then Panics ''slice bounds out of range''
                else
                  (let taskResponseDigest = copy (make_bytes 32) (take 32 s);
                       responseSignature = SignMessage env (Config_BlsConfig_KeyPair o') taskResponseDigest
                   in Returns (Some responseSignature, None)))))"

subsection \<open>The runtime loop\<close>

text \<open>
  A \<open>context.Context\<close>: whether its \<open>Done()\<close> channel is closed. The channel of
  \<open>context.Background()\<close> never is.
\<close>

record Context =
  Done :: bool

definition Background :: Context where
  "Background = \<lparr>Done = False\<rparr>"

text \<open>
  What the subscription delivers, in order: an error on \<open>sub.Err()\<close> or a log on
  \<open>NewTaskCreatedChan\<close>. When nothing is left to receive, the select blocks.
\<close>

datatype received = SubErr error | NewTaskCreatedLog NewTaskCreated

datatype exit = Returned | Blocked | Panicked string

text \<open>
  The \<open>for { select { ... } }\<close> of \<open>Start\<close>. Its first case receives from
  \<open>context.Background().Done()\<close>; the parameter \<open>ctx\<close> is not read. After
  \<open>SignTaskResponse\<close> the body logs an error if there is one and goes on to
  \<open>*taskResponse\<close> and \<open>*responseSignature\<close>, which panic on \<open>nil\<close>.
\<close>

fun select_loop :: "env \<Rightarrow> Operator \<Rightarrow> Context \<Rightarrow> received list \<Rightarrow> event list \<times> exit" where
  "select_loop env o' ctx [] =
     (if Done Background then ([Info ''Operator shutting down...''], Returned)
      else ([], Blocked))"
| "select_loop env o' ctx (SubErr err # rest) =
     (if Done Background then ([Info ''Operator shutting down...''], Returned)
      else emit [Info ''Error in websocket subscription'', Unsubscribe, Subscribe]
             (select_loop env o' ctx rest))"
| "select_loop env o' ctx (NewTaskCreatedLog newTaskCreatedLog # rest) =
     (if Done Background then ([Info ''Operator shutting down...''], Returned)
      else
        emit [Info ''Received task with index: %d'']
          (case ProcessNewTaskCreatedLog env o' newTaskCreatedLog of
             (tr, Panics msg) \<Rightarrow> (tr, Panicked msg)
           | (tr, Returns taskResponse) \<Rightarrow>
               emit tr
                 (case SignTaskResponse env o' taskResponse of
                    Panics msg \<Rightarrow> ([], Panicked msg)
                  | Returns (responseSignature, err) \<Rightarrow>
                      emit (if err \<noteq> None then [Errorf ''Could not sign task response''] else [])
                        (case taskResponse of
                           None \<Rightarrow> ([], Panicked ''invalid memory address or nil pointer dereference'')
                         | Some response \<Rightarrow>
                             (case responseSignature of
                                None \<Rightarrow>
                                  ([], Panicked ''invalid memory address or nil pointer dereference'')
                              | Some signature \<Rightarrow>
                                  emit [Info ''Signed hash: %+v'',
                                        SendSignedTaskResponseToAggregator
                                          \<lparr>TaskResponse = response,
                                           BlsSignature = signature,
                                           SignedOperatorId = OperatorId o'\<rparr>]
                                    (select_loop env o' ctx rest))))))"

definition Start :: "env \<Rightarrow> Operator \<Rightarrow> Context \<Rightarrow> received list \<Rightarrow> event list \<times> exit" where
  "Start env o' ctx received = emit [Subscribe] (select_loop env o' ctx received)"

subsection \<open>Test doubles\<close>

text \<open>
  A small instance of the collaborators, for running the functions on concrete tasks:
  buffers of four bytes, data-availability clients that find every non-empty locator,
  deserialisers that accept every non-empty input, verifiers that accept the proof
  \<open>[1]\<close> only, an encoder that refuses more than three results.
\<close>

definition stub_env :: env where
  "stub_env =
     \<lparr>Calldata = 0, EigenDA = 1, Celestia = 2,
      GnarkPlonkBls12_381 = 0, GnarkPlonkBn254 = 1, SP1 = 2,
      MaxProofSize = 4, MaxElfBufferSize = 4,
      getProofFromEigenDA = (\<lambda>d i. if d = [] then Inl ''blob not found'' else Inr d),
      getProofFromCelestia = (\<lambda>h ns c. if c = [] then Inl ''blob not found'' else Inr c),
      proof_ReadFrom = (\<lambda>c bs. if bs = [] then Inl ''EOF'' else Inr (Proof bs)),
      witness_New = (\<lambda>c. Inr (Witness [])),
      witness_ReadFrom = (\<lambda>w bs. if bs = [] then Inl ''EOF'' else Inr (Witness bs)),
      verifyingKey_ReadFrom = (\<lambda>c bs. if bs = [] then Inl ''EOF'' else Inr (VerifyingKey bs)),
      plonk_Verify = (\<lambda>p vk w. if p = Proof [1] then None else Some ''invalid proof''),
      sp1_verifier = (\<lambda>p e. p = [1]),
      AbiEncodeTaskResponse =
        (\<lambda>r. if length (ProofResults r) > 3 then Inl ''too long''
             else Inr (map (\<lambda>b. if b then 1 else 0) (ProofResults r))),
      Keccak256 = (\<lambda>bs. replicate 32 (of_nat (length bs))),
      SignMessage = (\<lambda>kp d. case kp of KeyPair k \<Rightarrow> Signature (k @ d))\<rparr>"

definition stub_operator :: Operator where
  "stub_operator =
     \<lparr>Config_CelestiaConfig_Namespace = [5], Config_BlsConfig_KeyPair = KeyPair [7],
      OperatorId = [9], Socket = []\<rparr>"

definition verification_data :: "16 word \<Rightarrow> 8 word \<Rightarrow> bytes \<Rightarrow> ProofVerificationData" where
  "verification_data system solution locator =
     \<lparr>ProvingSystemId = system,
      DAPayload = \<lparr>Solution = solution, ProofAssociatedData = locator, Index = 0\<rparr>,
      PubInput = [1], VerificationKey = [1]\<rparr>"

definition task_of :: "32 word \<Rightarrow> ProofVerificationData list \<Rightarrow> NewTaskCreated" where
  "task_of index proofs =
     \<lparr>TaskIndex = index,
      BatchProofVerificationTask = \<lparr>TaskCreatedBlock = 0, ProofVerificationsData = proofs\<rparr>\<rparr>"

subsection \<open>Vocabulary of the properties\<close>



text \<open>The signed responses handed to the aggregator client, in order.\<close>

fun sent :: "event list \<Rightarrow> SignedTaskResponse list" where
  "sent [] = []"
| "sent (SendSignedTaskResponseToAggregator signedTaskResponse # es) = signedTaskResponse # sent es"
| "sent (e # es) = sent es"

section \<open>Properties\<close>

subsection \<open>Events and built-ins\<close>

lemma emit_conv: "emit es p = (es @ fst p, snd p)"
  by (cases p) simp

lemma snd_emit: "snd (emit es p) = snd p"
  by (simp add: emit_conv)

lemma fst_emit: "fst (emit es p) = es @ fst p"
  by (simp add: emit_conv)

lemma length_copy: "length (copy dst src) = length dst"
  by (simp add: copy_def Let_def min_def)

lemma to_array_copy: "to_array n (copy (make_bytes n) src) = Some (copy (make_bytes n) src)"
  by (simp add: to_array_def length_copy make_bytes_def)

subsection \<open>What an iteration of the loop yields\<close>

lemma snd_da_switch:
  "snd (da_switch env o' vd) =
     (let payload = DAPayload vd in
      if Solution payload = Calldata env then Next (ProofAssociatedData payload)
      else if Solution payload = EigenDA env then
        (case getProofFromEigenDA env (ProofAssociatedData payload) (Index payload) of
           Inl err \<Rightarrow> ReturnNil | Inr proof \<Rightarrow> Next proof)
      else if Solution payload = Celestia env then
        (case getProofFromCelestia env (Index payload) (Config_CelestiaConfig_Namespace o')
                (ProofAssociatedData payload) of
           Inl err \<Rightarrow> ReturnNil | Inr proof \<Rightarrow> Next proof)
      else Next [])"
  by (simp add: da_switch_def Let_def snd_emit split: sum.split)

lemma da_switch_no_panic: "snd (da_switch env o' vd) \<noteq> Panic msg"
  by (simp add: snd_da_switch Let_def split: sum.split)

lemma snd_proving_system_switch:
  "snd (proving_system_switch env vd proof) =
     (if ProvingSystemId vd = GnarkPlonkBls12_381 env then
        Next (snd (verifyPlonkProofBLS12_381 env proof (PubInput vd) (VerificationKey vd)))
      else if ProvingSystemId vd = GnarkPlonkBn254 env then
        Next (snd (verifyPlonkProofBN254 env proof (PubInput vd) (VerificationKey vd)))
      else if ProvingSystemId vd = SP1 env then
        Next (VerifySp1Proof env (copy (make_bytes (MaxProofSize env)) proof) (length proof)
                (copy (make_bytes (MaxElfBufferSize env)) (PubInput vd)) (length (PubInput vd)))
      else ReturnNil)"
  by (simp add: proving_system_switch_def Let_def to_array_copy split: prod.split)

lemma proving_system_switch_no_panic: "snd (proving_system_switch env vd proof) \<noteq> Panic msg"
  by (simp add: snd_proving_system_switch)

lemma snd_loop_body:
  "snd (loop_body env o' vd) =
     (case snd (da_switch env o' vd) of
        Panic msg \<Rightarrow> Panic msg
      | ReturnNil \<Rightarrow> ReturnNil
      | Next proof \<Rightarrow> snd (proving_system_switch env vd proof))"
  by (simp add: loop_body_def snd_emit split: prod.split flow.split)

lemma loop_body_no_panic: "snd (loop_body env o' vd) \<noteq> Panic msg"
  by (simp add: snd_loop_body da_switch_no_panic proving_system_switch_no_panic split: flow.split)

subsection \<open>The loop\<close>

lemma snd_range_loop_Cons:
  "snd (range_loop env o' i (vd # rest) res) =
     (case snd (loop_body env o' vd) of
        Panic msg \<Rightarrow> Panic msg
      | ReturnNil \<Rightarrow> ReturnNil
      | Next v \<Rightarrow> snd (range_loop env o' (Suc i) rest (res[i := v])))"
  by (simp add: snd_emit split: prod.split flow.split)

lemma range_loop_no_panic: "snd (range_loop env o' i vds res) \<noteq> Panic msg"
  by (induction vds arbitrary: i res)
     (simp_all add: snd_range_loop_Cons loop_body_no_panic del: range_loop.simps(2) split: flow.split)

lemma range_loop_Next:
  "snd (range_loop env o' i vds res) = Next res' \<Longrightarrow> i + length vds \<le> length res \<Longrightarrow>
     length res' = length res \<and>
     (\<forall>j<length vds. snd (loop_body env o' (vds ! j)) = Next (res' ! (i + j))) \<and>
     (\<forall>k<i. res' ! k = res ! k)"
proof (induction vds arbitrary: i res)
  case Nil
  then show ?case by simp
next
  case (Cons vd rest)
  from Cons.prems(1) obtain v where
    body: "snd (loop_body env o' vd) = Next v" and
    tail: "snd (range_loop env o' (Suc i) rest (res[i := v])) = Next res'"
    by (auto simp: snd_range_loop_Cons simp del: range_loop.simps(2) split: flow.splits)
  from Cons.prems(2) have bound: "Suc i + length rest \<le> length (res[i := v])" and i: "i < length res"
    by simp_all
  from Cons.IH [OF tail bound] have
    len: "length res' = length res" and
    later: "\<forall>j<length rest. snd (loop_body env o' (rest ! j)) = Next (res' ! (Suc i + j))" and
    earlier: "\<forall>k<Suc i. res' ! k = res[i := v] ! k"
    by simp_all
  from earlier i have here: "res' ! i = v" by simp
  have "snd (loop_body env o' ((vd # rest) ! j)) = Next (res' ! (i + j))"
    if "j < length (vd # rest)" for j
  proof (cases j)
    case 0
    with body here show ?thesis by simp
  next
    case (Suc j')
    with that later show ?thesis by simp
  qed
  moreover have "res' ! k = res ! k" if "k < i" for k
    using earlier that by simp
  ultimately show ?case using len by blast
qed


lemma snd_ProcessNewTaskCreatedLog:
  "snd (ProcessNewTaskCreatedLog env o' l) =
     (case snd (range_loop env o' 0 (ProofVerificationsData (BatchProofVerificationTask l))
                  (replicate (length (ProofVerificationsData (BatchProofVerificationTask l))) False)) of
        Panic msg \<Rightarrow> Panics msg
      | ReturnNil \<Rightarrow> Returns None
      | Next res \<Rightarrow> Returns (Some \<lparr>RespTaskIndex = TaskIndex l, ProofResults = res\<rparr>))"
  by (simp add: ProcessNewTaskCreatedLog_def Let_def snd_emit split: prod.split flow.split)

subsection \<open>The response of a task\<close>

text \<open>
  C1. When \<open>ProcessNewTaskCreatedLog\<close> returns a response that is not \<open>nil\<close>, the response
  has one result per proof of the task, carries the task's index, and its result at index
  \<open>i\<close> is the verdict that the loop body yields for the \<open>i\<close>-th proof of the task.
\<close>

theorem ProcessNewTaskCreatedLog_results:
  assumes "snd (ProcessNewTaskCreatedLog env o' T) = Returns (Some R)"
  shows "length (ProofResults R) = length (ProofVerificationsData (BatchProofVerificationTask T)) \<and>
         RespTaskIndex R = TaskIndex T \<and>
         (\<forall>i<length (ProofVerificationsData (BatchProofVerificationTask T)).
            snd (loop_body env o' (ProofVerificationsData (BatchProofVerificationTask T) ! i))
              = Next (ProofResults R ! i))"
proof -
  let ?vds = "ProofVerificationsData (BatchProofVerificationTask T)"
  from assms obtain res where
    loop: "snd (range_loop env o' 0 ?vds (replicate (length ?vds) False)) = Next res" and
    R: "R = \<lparr>RespTaskIndex = TaskIndex T, ProofResults = res\<rparr>"
    by (auto simp: snd_ProcessNewTaskCreatedLog split: flow.splits)
  from range_loop_Next [OF loop] have
    "length res = length ?vds" and
    "\<forall>j<length ?vds. snd (loop_body env o' (?vds ! j)) = Next (res ! j)"
    by simp_all
  with R show ?thesis by simp
qed

theorem ProcessNewTaskCreatedLog_results_witness:
  "snd (ProcessNewTaskCreatedLog stub_env stub_operator
          (task_of 3 [verification_data 1 0 [1], verification_data 1 0 [2], verification_data 2 0 [1]]))
     = Returns (Some \<lparr>RespTaskIndex = 3, ProofResults = [True, False, True]\<rparr>) \<and>
   length (ProofResults \<lparr>RespTaskIndex = 3, ProofResults = [True, False, True]\<rparr>) = 3 \<and>
   snd (loop_body stub_env stub_operator (verification_data 1 0 [2])) = Next False"
proof -
  let ?T = "task_of 3 [verification_data 1 0 [1], verification_data 1 0 [2], verification_data 2 0 [1]]"
  let ?R = "\<lparr>RespTaskIndex = 3, ProofResults = [True, False, True]\<rparr>"
  have h: "snd (ProcessNewTaskCreatedLog stub_env stub_operator ?T) = Returns (Some ?R)"
    by code_simp
  have "1 < length (ProofVerificationsData (BatchProofVerificationTask ?T)) \<longrightarrow>
        snd (loop_body stub_env stub_operator
               (ProofVerificationsData (BatchProofVerificationTask ?T) ! 1)) = Next (ProofResults ?R ! 1)"
    using ProcessNewTaskCreatedLog_results [OF h] by blast
  then show ?thesis using h by (simp add: task_of_def)
qed

subsection \<open>Failed verdicts and abandoned tasks\<close>






lemma distinct_tags_stub_env: "distinct_tags stub_env"
  by (simp add: distinct_tags_def stub_env_def)


subsection \<open>SP1 inputs larger than the buffers\<close>

text \<open>
  C5. For an SP1 proof whose resolved proof bytes are longer than \<open>MaxProofSize\<close>, or whose
  ELF bytes (carried in \<open>PubInput\<close>) are longer than \<open>MaxElfBufferSize\<close>, the second switch
  and the whole iteration end with the verdict \<open>False\<close>, not with a panic: the buffers are
  cut to size, the conversions to arrays succeed, and the true lengths reach
  \<open>VerifySp1Proof\<close>.
\<close>

theorem oversized_sp1_input_is_False:
  assumes "distinct_tags env"
    and "ProvingSystemId vd = SP1 env"
    and "snd (da_switch env o' vd) = Next p"
    and "length p > MaxProofSize env \<or> length (PubInput vd) > MaxElfBufferSize env"
  shows "snd (proving_system_switch env vd p) = Next False \<and>
         snd (loop_body env o' vd) = Next False"
proof -
  from assms(1,2) have "ProvingSystemId vd \<noteq> GnarkPlonkBls12_381 env"
    and "ProvingSystemId vd \<noteq> GnarkPlonkBn254 env"
    by (auto simp: distinct_tags_def)
  with assms(2,4) have "snd (proving_system_switch env vd p) = Next False"
    by (auto simp: snd_proving_system_switch VerifySp1Proof_def)
  with assms(3) show ?thesis by (simp add: snd_loop_body)
qed

theorem oversized_sp1_input_is_False_witness:
  "distinct_tags stub_env \<and>
   ProvingSystemId (verification_data 2 0 [1, 1, 1, 1, 1]) = SP1 stub_env \<and>
   snd (da_switch stub_env stub_operator (verification_data 2 0 [1, 1, 1, 1, 1])) = Next [1, 1, 1, 1, 1] \<and>
   length [1, 1, 1, 1, 1 :: 8 word] > MaxProofSize stub_env \<and>
   snd (proving_system_switch stub_env (verification_data 2 0 [1, 1, 1, 1, 1]) [1, 1, 1, 1, 1]) = Next False \<and>
   snd (loop_body stub_env stub_operator (verification_data 2 0 [1, 1, 1, 1, 1])) = Next False"
proof -
  let ?vd = "verification_data 2 0 [1, 1, 1, 1, 1]"
  have d: "distinct_tags stub_env" by (rule distinct_tags_stub_env)
  have s: "ProvingSystemId ?vd = SP1 stub_env"
    by (simp add: verification_data_def stub_env_def)
  have f: "snd (da_switch stub_env stub_operator ?vd) = Next [1, 1, 1, 1, 1]"
    by (simp add: snd_da_switch verification_data_def stub_env_def)
  have l: "length [1, 1, 1, 1, 1 :: 8 word] > MaxProofSize stub_env"
    by (simp add: stub_env_def)
  from l have "length [1, 1, 1, 1, 1 :: 8 word] > MaxProofSize stub_env \<or>
      length (PubInput ?vd) > MaxElfBufferSize stub_env" ..
  from oversized_sp1_input_is_False [OF d s f this] d s f l show ?thesis by blast
qed


subsection \<open>Resolving the proof bytes\<close>

text \<open>
  C7. For a payload whose solution is \<open>Calldata\<close>, the first switch yields
  \<open>ProofAssociatedData\<close> unchanged, with no event (no call to a client, no log) and no way
  to return \<open>nil\<close>.
\<close>

theorem calldata_is_verbatim:
  assumes "Solution (DAPayload vd) = Calldata env"
  shows "da_switch env o' vd = ([], Next (ProofAssociatedData (DAPayload vd)))"
  using assms by (simp add: da_switch_def)

theorem calldata_is_verbatim_witness:
  "Solution (DAPayload (verification_data 1 0 [3, 4])) = Calldata stub_env \<and>
   da_switch stub_env stub_operator (verification_data 1 0 [3, 4]) = ([], Next [3, 4])"
proof -
  have h: "Solution (DAPayload (verification_data 1 0 [3, 4])) = Calldata stub_env"
    by (simp add: verification_data_def stub_env_def)
  from calldata_is_verbatim [OF h, of stub_operator] h show ?thesis
    by (simp add: verification_data_def)
qed



subsection \<open>The steps of the PLONK verifier\<close>

text \<open>
  C8. \<open>verifyPlonkProof\<close> reads the proof, makes and reads the public witness over the
  curve's scalar field, and reads the verifying key, in that order, as its events show. At
  the first step that fails it logs and returns \<open>False\<close> without attempting the later ones.
  When all succeed it calls \<open>plonk.Verify\<close> and returns \<open>True\<close> exactly when that returns no
  error.
\<close>

theorem verifyPlonkProof_steps:
  "(\<forall>err. proof_ReadFrom env curve proofBytes = Inl err \<longrightarrow>
      verifyPlonkProof env proofBytes pubInputBytes verificationKeyBytes curve
        = ([ProofReadFrom curve proofBytes, Errorf ''Could not deserialize proof: %v''], False)) \<and>
   (\<forall>p err. proof_ReadFrom env curve proofBytes = Inr p \<and> witness_New env curve = Inl err \<longrightarrow>
      verifyPlonkProof env proofBytes pubInputBytes verificationKeyBytes curve
        = ([ProofReadFrom curve proofBytes, WitnessNew curve,
            Errorf ''Error instantiating witness: %v''], False)) \<and>
   (\<forall>p w err. proof_ReadFrom env curve proofBytes = Inr p \<and> witness_New env curve = Inr w \<and>
        witness_ReadFrom env w pubInputBytes = Inl err \<longrightarrow>
      verifyPlonkProof env proofBytes pubInputBytes verificationKeyBytes curve
        = ([ProofReadFrom curve proofBytes, WitnessNew curve, WitnessReadFrom pubInputBytes,
            Errorf ''Could not read PLONK public input: %v''], False)) \<and>
   (\<forall>p w pubInput err. proof_ReadFrom env curve proofBytes = Inr p \<and> witness_New env curve = Inr w \<and>
        witness_ReadFrom env w pubInputBytes = Inr pubInput \<and>
        verifyingKey_ReadFrom env curve verificationKeyBytes = Inl err \<longrightarrow>
      verifyPlonkProof env proofBytes pubInputBytes verificationKeyBytes curve
        = ([ProofReadFrom curve proofBytes, WitnessNew curve, WitnessReadFrom pubInputBytes,
            VerifyingKeyReadFrom curve verificationKeyBytes,
            Errorf ''Could not read PLONK verifying key from bytes: %v''], False)) \<and>
   (\<forall>p w pubInput vk. proof_ReadFrom env curve proofBytes = Inr p \<and> witness_New env curve = Inr w \<and>
        witness_ReadFrom env w pubInputBytes = Inr pubInput \<and>
        verifyingKey_ReadFrom env curve verificationKeyBytes = Inr vk \<longrightarrow>
      verifyPlonkProof env proofBytes pubInputBytes verificationKeyBytes curve
        = ([ProofReadFrom curve proofBytes, WitnessNew curve, WitnessReadFrom pubInputBytes,
            VerifyingKeyReadFrom curve verificationKeyBytes, PlonkVerify p vk pubInput],
           plonk_Verify env p vk pubInput = None))"
  by (simp add: verifyPlonkProof_def)

theorem verifyPlonkProof_steps_witness:
  "proof_ReadFrom stub_env BN254 [] = Inl ''EOF'' \<and>
   verifyPlonkProof stub_env [] [1] [1] BN254
     = ([ProofReadFrom BN254 [], Errorf ''Could not deserialize proof: %v''], False) \<and>
   witness_ReadFrom stub_env (Witness []) [] = Inl ''EOF'' \<and>
   verifyPlonkProof stub_env [1] [] [1] BN254
     = ([ProofReadFrom BN254 [1], WitnessNew BN254, WitnessReadFrom [],
         Errorf ''Could not read PLONK public input: %v''], False) \<and>
   verifyingKey_ReadFrom stub_env BN254 [] = Inl ''EOF'' \<and>
   verifyPlonkProof stub_env [1] [1] [] BN254
     = ([ProofReadFrom BN254 [1], WitnessNew BN254, WitnessReadFrom [1],
         VerifyingKeyReadFrom BN254 [], Errorf ''Could not read PLONK verifying key from bytes: %v''],
        False) \<and>
   plonk_Verify stub_env (Proof [1]) (VerifyingKey [1]) (Witness [1]) = None \<and>
   verifyPlonkProof stub_env [1] [1] [1] BN254
     = ([ProofReadFrom BN254 [1], WitnessNew BN254, WitnessReadFrom [1],
         VerifyingKeyReadFrom BN254 [1], PlonkVerify (Proof [1]) (VerifyingKey [1]) (Witness [1])],
        True) \<and>
   plonk_Verify stub_env (Proof [2]) (VerifyingKey [1]) (Witness [1]) = Some ''invalid proof'' \<and>
   snd (verifyPlonkProof stub_env [2] [1] [1] BLS12_381) = False \<and>
   witness_New (stub_env\<lparr>witness_New := \<lambda>c. Inl ''unknown curve''\<rparr>) BW6_761 = Inl ''unknown curve'' \<and>
   verifyPlonkProof (stub_env\<lparr>witness_New := \<lambda>c. Inl ''unknown curve''\<rparr>) [1] [1] [1] BW6_761
     = ([ProofReadFrom BW6_761 [1], WitnessNew BW6_761, Errorf ''Error instantiating witness: %v''],
        False)"
proof -
  have p0: "proof_ReadFrom stub_env BN254 [] = Inl ''EOF''"
    and p1: "proof_ReadFrom stub_env BN254 [1] = Inr (Proof [1])"
    and p2: "proof_ReadFrom stub_env BLS12_381 [2] = Inr (Proof [2])"
    and n: "witness_New stub_env BN254 = Inr (Witness [])"
    and n': "witness_New stub_env BLS12_381 = Inr (Witness [])"
    and w0: "witness_ReadFrom stub_env (Witness []) [] = Inl ''EOF''"
    and w1: "witness_ReadFrom stub_env (Witness []) [1] = Inr (Witness [1])"
    and k0: "verifyingKey_ReadFrom stub_env BN254 [] = Inl ''EOF''"
    and k1: "verifyingKey_ReadFrom stub_env BN254 [1] = Inr (VerifyingKey [1])"
    and k1': "verifyingKey_ReadFrom stub_env BLS12_381 [1] = Inr (VerifyingKey [1])"
    and v1: "plonk_Verify stub_env (Proof [1]) (VerifyingKey [1]) (Witness [1]) = None"
    and v2: "plonk_Verify stub_env (Proof [2]) (VerifyingKey [1]) (Witness [1]) = Some ''invalid proof''"
    by (simp_all add: stub_env_def)
  let ?env = "stub_env\<lparr>witness_New := \<lambda>c. Inl ''unknown curve''\<rparr>"
  have p3: "proof_ReadFrom ?env BW6_761 [1] = Inr (Proof [1])"
    and n3: "witness_New ?env BW6_761 = Inl ''unknown curve''"
    by (simp_all add: stub_env_def)
  have f: "verifyPlonkProof ?env [1] [1] [1] BW6_761
     = ([ProofReadFrom BW6_761 [1], WitnessNew BW6_761, Errorf ''Error instantiating witness: %v''],
        False)"
    using verifyPlonkProof_steps [of ?env BW6_761 "[1]" "[1]" "[1]"] p3 n3 by blast
  have a: "verifyPlonkProof stub_env [] [1] [1] BN254
     = ([ProofReadFrom BN254 [], Errorf ''Could not deserialize proof: %v''], False)"
    using verifyPlonkProof_steps [of stub_env BN254 "[]" "[1]" "[1]"] p0 by blast
  have b: "verifyPlonkProof stub_env [1] [] [1] BN254
     = ([ProofReadFrom BN254 [1], WitnessNew BN254, WitnessReadFrom [],
         Errorf ''Could not read PLONK public input: %v''], False)"
    using verifyPlonkProof_steps [of stub_env BN254 "[1]" "[]" "[1]"] p1 n w0 by blast
  have c: "verifyPlonkProof stub_env [1] [1] [] BN254
     = ([ProofReadFrom BN254 [1], WitnessNew BN254, WitnessReadFrom [1],
         VerifyingKeyReadFrom BN254 [], Errorf ''Could not read PLONK verifying key from bytes: %v''],
        False)"
    using verifyPlonkProof_steps [of stub_env BN254 "[1]" "[1]" "[]"] p1 n w1 k0 by blast
  have d: "verifyPlonkProof stub_env [1] [1] [1] BN254
     = ([ProofReadFrom BN254 [1], WitnessNew BN254, WitnessReadFrom [1],
         VerifyingKeyReadFrom BN254 [1], PlonkVerify (Proof [1]) (VerifyingKey [1]) (Witness [1])],
        plonk_Verify stub_env (Proof [1]) (VerifyingKey [1]) (Witness [1]) = None)"
    using verifyPlonkProof_steps [of stub_env BN254 "[1]" "[1]" "[1]"] p1 n w1 k1 by blast
  have e: "verifyPlonkProof stub_env [2] [1] [1] BLS12_381
     = ([ProofReadFrom BLS12_381 [2], WitnessNew BLS12_381, WitnessReadFrom [1],
         VerifyingKeyReadFrom BLS12_381 [1], PlonkVerify (Proof [2]) (VerifyingKey [1]) (Witness [1])],
        plonk_Verify stub_env (Proof [2]) (VerifyingKey [1]) (Witness [1]) = None)"
    using verifyPlonkProof_steps [of stub_env BLS12_381 "[2]" "[1]" "[1]"] p2 n' w1 k1' by blast
  from p0 a w0 b k0 c v1 d v2 e n3 f show ?thesis by simp
qed

subsection \<open>Signing\<close>

lemma length_copy_make: "length (copy (make_bytes n) src) = n"
  by (simp add: length_copy make_bytes_def)

lemma copy_same_length: "length src = length dst \<Longrightarrow> copy dst src = src"
  by (simp add: copy_def)

lemma fresh_hasher_Sum:
  "hasher_Sum env (hasher_Write NewLegacyKeccak256 p) [] = Keccak256 env p"
  by (simp add: hasher_Sum_def hasher_Write_def NewLegacyKeccak256_def)

text \<open>
  C9. What \<open>SignTaskResponse\<close> returns depends on the response and on the key pair of the
  configuration only: operators that agree on the key pair return the same result for the
  same response, whatever their other fields. Every call starts from a fresh hasher, so
  the message signed is the Keccak-256 digest of the ABI encoding of the response, 32
  bytes, the same at each call.
\<close>

theorem SignTaskResponse_deterministic:
  assumes "Config_BlsConfig_KeyPair o1 = Config_BlsConfig_KeyPair o2"
  shows "SignTaskResponse env o1 (Some response) = SignTaskResponse env o2 (Some response) \<and>
         (\<forall>encoded. AbiEncodeTaskResponse env response = Inr encoded \<and>
                     length (Keccak256 env encoded) = 32 \<longrightarrow>
            SignTaskResponse env o1 (Some response)
              = Returns (Some (SignMessage env (Config_BlsConfig_KeyPair o1) (Keccak256 env encoded)),
                         None))"
proof (intro conjI allI impI)
  from assms show "SignTaskResponse env o1 (Some response) = SignTaskResponse env o2 (Some response)"
    by (simp add: SignTaskResponse_def Let_def split: sum.split)
next
  fix encoded
  assume a: "AbiEncodeTaskResponse env response = Inr encoded \<and> length (Keccak256 env encoded) = 32"
  then have "copy (make_bytes 32) (take 32 (Keccak256 env encoded)) = Keccak256 env encoded"
    by (simp add: copy_same_length make_bytes_def)
  with a show "SignTaskResponse env o1 (Some response)
      = Returns (Some (SignMessage env (Config_BlsConfig_KeyPair o1) (Keccak256 env encoded)), None)"
    by (simp add: SignTaskResponse_def fresh_hasher_Sum Let_def)
qed

theorem SignTaskResponse_deterministic_witness:
  "Config_BlsConfig_KeyPair stub_operator
     = Config_BlsConfig_KeyPair (stub_operator\<lparr>OperatorId := [8], Socket := ''x''\<rparr>) \<and>
   AbiEncodeTaskResponse stub_env \<lparr>RespTaskIndex = 3, ProofResults = [True, False]\<rparr> = Inr [1, 0] \<and>
   length (Keccak256 stub_env [1, 0]) = 32 \<and>
   SignTaskResponse stub_env stub_operator (Some \<lparr>RespTaskIndex = 3, ProofResults = [True, False]\<rparr>)
     = SignTaskResponse stub_env (stub_operator\<lparr>OperatorId := [8], Socket := ''x''\<rparr>)
         (Some \<lparr>RespTaskIndex = 3, ProofResults = [True, False]\<rparr>) \<and>
   SignTaskResponse stub_env stub_operator (Some \<lparr>RespTaskIndex = 3, ProofResults = [True, False]\<rparr>)
     = Returns (Some (Signature (7 # replicate 32 2)), None)"
proof -
  let ?o2 = "stub_operator\<lparr>OperatorId := [8], Socket := ''x''\<rparr>"
  let ?r = "\<lparr>RespTaskIndex = 3, ProofResults = [True, False]\<rparr>"
  have k: "Config_BlsConfig_KeyPair stub_operator = Config_BlsConfig_KeyPair ?o2"
    by simp
  have e: "AbiEncodeTaskResponse stub_env ?r = Inr [1, 0]"
    by (simp add: stub_env_def)
  have l: "length (Keccak256 stub_env [1, 0]) = 32"
    by (simp add: stub_env_def)
  have s: "SignMessage stub_env (Config_BlsConfig_KeyPair stub_operator) (Keccak256 stub_env [1, 0])
             = Signature (7 # replicate 32 2)"
    by (simp add: stub_env_def stub_operator_def)
  from SignTaskResponse_deterministic [OF k, of stub_env ?r] e l
  have "SignTaskResponse stub_env stub_operator (Some ?r) = SignTaskResponse stub_env ?o2 (Some ?r)"
    and "SignTaskResponse stub_env stub_operator (Some ?r)
           = Returns (Some (SignMessage stub_env (Config_BlsConfig_KeyPair stub_operator)
                              (Keccak256 stub_env [1, 0])), None)"
    by blast+
  with k e l s show ?thesis by simp
qed

subsection \<open>The runtime loop\<close>

lemma sent_append: "sent (xs @ ys) = sent xs @ sent ys"
  by (induction xs rule: sent.induct) simp_all

lemma sent_verifyPlonkProof: "verifyPlonkProof env p i k c = (tr, r) \<Longrightarrow> sent tr = []"
  by (auto simp: verifyPlonkProof_def split: sum.splits)

lemma sent_da_switch: "da_switch env o' vd = (tr, r) \<Longrightarrow> sent tr = []"
  by (auto simp: da_switch_def Let_def split: sum.splits if_splits)

lemma sent_proving_system_switch: "proving_system_switch env vd p = (tr, r) \<Longrightarrow> sent tr = []"
  by (auto simp: proving_system_switch_def Let_def to_array_copy sent_append
      verifyPlonkProofBLS12_381_def verifyPlonkProofBN254_def
      dest: sent_verifyPlonkProof split: prod.splits if_splits)

lemma sent_loop_body:
  assumes "loop_body env o' vd = (tr, r)"
  shows "sent tr = []"
proof -
  obtain tr1 r1 where da: "da_switch env o' vd = (tr1, r1)"
    by (cases "da_switch env o' vd")
  then have s1: "sent tr1 = []" by (rule sent_da_switch)
  show ?thesis
  proof (cases r1)
    case (Panic msg)
    with da assms s1 show ?thesis by (simp add: loop_body_def)
  next
    case ReturnNil
    with da assms s1 show ?thesis by (simp add: loop_body_def)
  next
    case (Next p)
    obtain tr2 r2 where sw: "proving_system_switch env vd p = (tr2, r2)"
      by (cases "proving_system_switch env vd p")
    then have "sent tr2 = []" by (rule sent_proving_system_switch)
    with da Next sw assms s1 show ?thesis by (auto simp: loop_body_def sent_append)
  qed
qed

lemma sent_range_loop: "range_loop env o' i vds res = (tr, r) \<Longrightarrow> sent tr = []"
proof (induction vds arbitrary: i res tr r)
  case Nil
  then show ?case by simp
next
  case (Cons vd rest)
  obtain tr1 r1 where body: "loop_body env o' vd = (tr1, r1)"
    by (cases "loop_body env o' vd")
  then have s1: "sent tr1 = []" by (rule sent_loop_body)
  show ?case
  proof (cases r1)
    case (Panic msg)
    with body Cons.prems s1 show ?thesis by simp
  next
    case ReturnNil
    with body Cons.prems s1 show ?thesis by simp
  next
    case (Next v)
    obtain tr2 r2 where tail: "range_loop env o' (Suc i) rest (res[i := v]) = (tr2, r2)"
      by (cases "range_loop env o' (Suc i) rest (res[i := v])")
    then have "sent tr2 = []" by (rule Cons.IH)
    with body Next tail Cons.prems s1 show ?thesis by (auto simp: sent_append)
  qed
qed

lemma sent_ProcessNewTaskCreatedLog:
  assumes "ProcessNewTaskCreatedLog env o' l = (tr, r)"
  shows "sent tr = []"
proof -
  let ?vds = "ProofVerificationsData (BatchProofVerificationTask l)"
  obtain tr1 r1 where loop: "range_loop env o' 0 ?vds (replicate (length ?vds) False) = (tr1, r1)"
    by (cases "range_loop env o' 0 ?vds (replicate (length ?vds) False)")
  then have "sent tr1 = []" by (rule sent_range_loop)
  with loop assms show ?thesis
    by (cases r1) (auto simp: ProcessNewTaskCreatedLog_def Let_def)
qed

lemma SignTaskResponse_error_no_signature:
  "SignTaskResponse env o' taskResponse = Returns (responseSignature, Some err) \<Longrightarrow>
     responseSignature = None"
  by (auto simp: SignTaskResponse_def Let_def split: option.splits sum.splits if_splits)

lemma Done_Background: "\<not> Done Background"
  by (simp add: Background_def)

lemma signing_error_panics:
  assumes "ProcessNewTaskCreatedLog env o' l = (tr, Returns (Some response))"
    and "SignTaskResponse env o' (Some response) = Returns (responseSignature, Some err)"
  shows "select_loop env o' ctx (NewTaskCreatedLog l # rest)
           = (Info ''Received task with index: %d'' # tr @ [Errorf ''Could not sign task response''],
              Panicked ''invalid memory address or nil pointer dereference'') \<and>
         sent (fst (select_loop env o' ctx (NewTaskCreatedLog l # rest))) = []"
proof -
  from assms(2) have "responseSignature = None"
    by (rule SignTaskResponse_error_no_signature)
  with assms have run: "select_loop env o' ctx (NewTaskCreatedLog l # rest)
           = (Info ''Received task with index: %d'' # tr @ [Errorf ''Could not sign task response''],
              Panicked ''invalid memory address or nil pointer dereference'')"
    by (simp add: Done_Background)
  from assms(1) have "sent tr = []" by (rule sent_ProcessNewTaskCreatedLog)
  with run show ?thesis by (simp add: sent_append)
qed

lemma task_alone_is_submitted:
  "sent (fst (Start stub_env stub_operator \<lparr>Done = False\<rparr>
                [NewTaskCreatedLog (task_of 10 [verification_data 2 0 [1]])]))
   = [\<lparr>TaskResponse = \<lparr>RespTaskIndex = 10, ProofResults = [True]\<rparr>,
       BlsSignature = Signature (7 # replicate 32 1),
       SignedOperatorId = [9]\<rparr>]"
  by code_simp

text \<open>
  C6. A task of four proofs is verified, and the encoder refuses its response, so
  \<open>SignTaskResponse\<close> returns an error. \<open>Start\<close> logs \<open>Could not sign task response\<close> and
  sends nothing for the task, but it does not skip the rest of the iteration: it goes on to
  dereference the \<open>nil\<close> signature, and the run ends in a panic. The valid task received
  after it, which alone is submitted, is never processed.
\<close>

theorem Start_panics_on_signing_error:
  "Start stub_env stub_operator \<lparr>Done = False\<rparr>
     [NewTaskCreatedLog (task_of 9 [verification_data 2 0 [1], verification_data 2 0 [1],
                                    verification_data 2 0 [1], verification_data 2 0 [2]]),
      NewTaskCreatedLog (task_of 10 [verification_data 2 0 [1]])]
   = ([Subscribe,
       Info ''Received task with index: %d'',
       Info ''Received new task with proof to verify'',
       Sp1Verify [1, 0, 0, 0] 1 [1, 0, 0, 0] 1,
       Info ''SP1 proof verification result: %t'',
       Sp1Verify [1, 0, 0, 0] 1 [1, 0, 0, 0] 1,
       Info ''SP1 proof verification result: %t'',
       Sp1Verify [1, 0, 0, 0] 1 [1, 0, 0, 0] 1,
       Info ''SP1 proof verification result: %t'',
       Sp1Verify [2, 0, 0, 0] 1 [1, 0, 0, 0] 1,
       Info ''SP1 proof verification result: %t'',
       Errorf ''Could not sign task response''],
      Panicked ''invalid memory address or nil pointer dereference'')"
  by code_simp

lemma abandoned_task_panics:
  assumes "ProcessNewTaskCreatedLog env o' l = (tr, Returns None)"
  shows "select_loop env o' ctx (NewTaskCreatedLog l # rest)
           = (Info ''Received task with index: %d'' # tr,
              Panicked ''invalid memory address or nil pointer dereference'')"
  using assms by (simp add: Done_Background SignTaskResponse_def)

lemma select_loop_ignores_ctx: "select_loop env o' ctx received = select_loop env o' ctx' received"
proof (induction received)
  case Nil
  then show ?case by simp
next
  case (Cons r rest)
  then show ?case
    by (cases r) (simp_all split: prod.split go.split option.split)
qed

lemma select_loop_never_returns: "snd (select_loop env o' ctx received) \<noteq> Returned"
proof (induction received)
  case Nil
  then show ?case by (simp add: Done_Background)
next
  case (Cons r rest)
  then show ?case
    by (cases r) (simp_all add: Done_Background snd_emit split: prod.split go.split option.split)
qed

text \<open>
  C3. A task of two proofs whose second names the proving system \<open>0xFFFF\<close> is abandoned:
  \<open>ProcessNewTaskCreatedLog\<close> returns \<open>nil\<close>. \<open>Start\<close> sends nothing for it, but it passes the
  \<open>nil\<close> to \<open>SignTaskResponse\<close>, which dereferences it: the run ends in a panic, and the task
  received after it is never processed.
\<close>

theorem Start_panics_on_abandoned_task:
  "Start stub_env stub_operator \<lparr>Done = False\<rparr>
     [NewTaskCreatedLog (task_of 7 [verification_data 2 0 [1], verification_data 0xFFFF 0 [1]]),
      NewTaskCreatedLog (task_of 8 [verification_data 2 0 [1]])]
   = ([Subscribe,
       Info ''Received task with index: %d'',
       Info ''Received new task with proof to verify'',
       Sp1Verify [1, 0, 0, 0] 1 [1, 0, 0, 0] 1,
       Info ''SP1 proof verification result: %t'',
       Errorf ''Unrecognized proving system ID''],
      Panicked ''invalid memory address or nil pointer dereference'')"
  by code_simp

text \<open>
  C4. \<open>Start\<close> is given a context that is already cancelled. It still accepts the task it
  receives, verifies it and hands the signed response to the aggregator; it never
  unsubscribes and it does not return, but blocks in the select.
\<close>

theorem Start_ignores_cancelled_context:
  "Start stub_env stub_operator \<lparr>Done = True\<rparr>
     [NewTaskCreatedLog (task_of 8 [verification_data 2 0 [1]])]
   = ([Subscribe,
       Info ''Received task with index: %d'',
       Info ''Received new task with proof to verify'',
       Sp1Verify [1, 0, 0, 0] 1 [1, 0, 0, 0] 1,
       Info ''SP1 proof verification result: %t'',
       Info ''Signed hash: %+v'',
       SendSignedTaskResponseToAggregator
         \<lparr>TaskResponse = \<lparr>RespTaskIndex = 8, ProofResults = [True]\<rparr>,
          BlsSignature = Signature (7 # replicate 32 1),
          SignedOperatorId = [9]\<rparr>],
      Blocked)"
  by code_simp

end
